theory Spec2Isabelle
  imports Complex_Main
begin

section \<open>JavaScript numbers\<close>

text \<open>
  The editor's geometry is computed with JavaScript numbers. Finite values are modelled
  as exact reals (binary rounding error and signed zero are not modelled). Only the
  coordinate mapper divides by quantities that may be zero, so its arithmetic is
  modelled on \<open>jsnum\<close>, which adds the two infinities and NaN with the results
  that the language gives: \<open>a / 0\<close> is an infinity or NaN, never an exception.
\<close>

datatype jsnum = Fin real | PInf | NInf | NaN

fun is_finite :: "jsnum \<Rightarrow> bool" where
  "is_finite (Fin a) = True"
| "is_finite PInf = False"
| "is_finite NInf = False"
| "is_finite NaN = False"

fun js_div :: "jsnum \<Rightarrow> jsnum \<Rightarrow> jsnum" where
  "js_div NaN b = NaN"
| "js_div a NaN = NaN"
| "js_div (Fin a) (Fin b) =
     (if b \<noteq> 0 then Fin (a / b)
      else if a = 0 then NaN
      else if 0 < a then PInf else NInf)"
| "js_div (Fin a) PInf = Fin 0"
| "js_div (Fin a) NInf = Fin 0"
| "js_div PInf (Fin b) = (if 0 \<le> b then PInf else NInf)"
| "js_div NInf (Fin b) = (if 0 \<le> b then NInf else PInf)"
| "js_div PInf PInf = NaN"
| "js_div PInf NInf = NaN"
| "js_div NInf PInf = NaN"
| "js_div NInf NInf = NaN"

fun js_mul :: "jsnum \<Rightarrow> jsnum \<Rightarrow> jsnum" where
  "js_mul NaN b = NaN"
| "js_mul a NaN = NaN"
| "js_mul (Fin a) (Fin b) = Fin (a * b)"
| "js_mul (Fin a) PInf = (if a = 0 then NaN else if 0 < a then PInf else NInf)"
| "js_mul (Fin a) NInf = (if a = 0 then NaN else if 0 < a then NInf else PInf)"
| "js_mul PInf (Fin b) = (if b = 0 then NaN else if 0 < b then PInf else NInf)"
| "js_mul NInf (Fin b) = (if b = 0 then NaN else if 0 < b then NInf else PInf)"
| "js_mul PInf PInf = PInf"
| "js_mul PInf NInf = NInf"
| "js_mul NInf PInf = NInf"
| "js_mul NInf NInf = PInf"

fun js_sub :: "jsnum \<Rightarrow> jsnum \<Rightarrow> jsnum" where
  "js_sub NaN b = NaN"
| "js_sub a NaN = NaN"
| "js_sub (Fin a) (Fin b) = Fin (a - b)"
| "js_sub (Fin a) PInf = NInf"
| "js_sub (Fin a) NInf = PInf"
| "js_sub PInf (Fin b) = PInf"
| "js_sub NInf (Fin b) = NInf"
| "js_sub PInf PInf = NaN"
| "js_sub PInf NInf = PInf"
| "js_sub NInf PInf = NInf"
| "js_sub NInf NInf = NaN"

text \<open>The comparison \<open>a > b\<close>: false as soon as one side is NaN.\<close>

fun js_gt :: "jsnum \<Rightarrow> jsnum \<Rightarrow> bool" where
  "js_gt NaN b = False"
| "js_gt a NaN = False"
| "js_gt (Fin a) (Fin b) = (b < a)"
| "js_gt (Fin a) PInf = False"
| "js_gt (Fin a) NInf = True"
| "js_gt PInf (Fin b) = True"
| "js_gt PInf NInf = True"
| "js_gt PInf PInf = False"
| "js_gt NInf b = False"

text \<open>\<open>Math.round\<close>: the nearest integer, a half going up.\<close>

definition Math_round :: "real \<Rightarrow> real" where
  "Math_round v = of_int \<lfloor>v + 1 / 2\<rfloor>"

section \<open>types/video.ts\<close>

text \<open>
  \<open>CropArea\<close> and \<open>OverlayPosition\<close> are the same structure
  \<open>{x, y, width, height}\<close>; the fields carry a prefix here.
\<close>

record CropArea =
  area_x :: real
  area_y :: real
  area_width :: real
  area_height :: real

type_synonym OverlayPosition = CropArea

text \<open>The string unions \<open>'upload' | 'crop' | 'merge'\<close> and \<open>'crop' | 'merge'\<close>.\<close>

datatype SourceType = src_upload | src_crop | src_merge

datatype EditorMode = mode_crop | mode_merge

record VideoFile =
  v_id :: string
  v_name :: string
  v_size :: real
  v_duration :: real
  v_width :: real
  v_height :: real
  v_fps :: real
  v_frameCount :: real
  v_format :: string
  v_url :: string
  v_isMain :: "bool option"
  v_sourceType :: "SourceType option"
  v_parentId :: "string option"



section \<open>CropOverlay: the coordinate mapper\<close>

text \<open>
  The component computes, on every render, the two aspect ratios, the displayed size of
  the video inside its container, the centring offsets and the scale. No branch tests
  for a zero dimension. All the named values are kept, so that every quotient the code
  evaluates is a field of the result (or the constant division by two).
\<close>

record Display =
  videoAspect :: jsnum
  containerAspect :: jsnum
  displayWidth :: jsnum
  displayHeight :: jsnum
  offsetX :: jsnum
  offsetY :: jsnum
  scale :: jsnum

definition computeDisplay :: "real \<Rightarrow> real \<Rightarrow> real \<Rightarrow> real \<Rightarrow> Display" where
  "computeDisplay videoWidth videoHeight containerWidth containerHeight =
     (let va = js_div (Fin videoWidth) (Fin videoHeight);
          ca = js_div (Fin containerWidth) (Fin containerHeight)
      in if js_gt va ca
         then (let dw = Fin containerWidth;
                   dh = js_div (Fin containerWidth) va
               in \<lparr> videoAspect = va, containerAspect = ca,
                    displayWidth = dw, displayHeight = dh,
                    offsetX = Fin 0,
                    offsetY = js_div (js_sub (Fin containerHeight) dh) (Fin 2),
                    scale = js_div dw (Fin videoWidth) \<rparr>)
         else (let dh = Fin containerHeight;
                   dw = js_mul (Fin containerHeight) va
               in \<lparr> videoAspect = va, containerAspect = ca,
                    displayWidth = dw, displayHeight = dh,
                    offsetX = js_div (js_sub (Fin containerWidth) dw) (Fin 2),
                    offsetY = Fin 0,
                    scale = js_div dw (Fin videoWidth) \<rparr>))"

text \<open>
  \<open>toContainerCoords\<close> and \<open>toVideoCoords\<close> close over \<open>scale\<close>,
  \<open>offsetX\<close> and \<open>offsetY\<close>; here they take them as arguments. The container
  rectangle is not rounded, the video rectangle is.
\<close>

definition toContainerCoords :: "real \<Rightarrow> real \<Rightarrow> real \<Rightarrow> CropArea \<Rightarrow> CropArea" where
  "toContainerCoords sc ox oy area =
     \<lparr> area_x = area_x area * sc + ox,
       area_y = area_y area * sc + oy,
       area_width = area_width area * sc,
       area_height = area_height area * sc \<rparr>"

definition toVideoCoords :: "real \<Rightarrow> real \<Rightarrow> real \<Rightarrow> CropArea \<Rightarrow> CropArea" where
  "toVideoCoords sc ox oy containerArea =
     \<lparr> area_x = Math_round ((area_x containerArea - ox) / sc),
       area_y = Math_round ((area_y containerArea - oy) / sc),
       area_width = Math_round (area_width containerArea / sc),
       area_height = Math_round (area_height containerArea / sc) \<rparr>"

section \<open>CropOverlay: clamping and the drag and resize gestures\<close>

text \<open>
  \<open>clampArea\<close> rounds the four fields, then limits the size to
  \<open>[minSize, videoWidth]\<close> and \<open>[minSize, videoHeight]\<close>, then limits the
  position with the size already resolved. It does not know which handle is dragged.
\<close>

definition clampArea :: "real \<Rightarrow> real \<Rightarrow> CropArea \<Rightarrow> CropArea" where
  "clampArea videoWidth videoHeight area =
     (let minSize = 20;
          x0 = Math_round (area_x area);
          y0 = Math_round (area_y area);
          width0 = Math_round (area_width area);
          height0 = Math_round (area_height area);
          width1 = max minSize (min width0 videoWidth);
          height1 = max minSize (min height0 videoHeight);
          x1 = max 0 (min x0 (videoWidth - width1));
          y1 = max 0 (min y0 (videoHeight - height1))
      in \<lparr> area_x = x1, area_y = y1, area_width = width1, area_height = height1 \<rparr>)"

datatype ResizeHandle = H_nw | H_n | H_ne | H_e | H_se | H_s | H_sw | H_w

text \<open>
  The component state of a gesture: \<open>dragging\<close>, \<open>resizing\<close> (\<open>None\<close> is the
  source's \<open>null\<close>), the pointer position at mouse-down and the rectangle at
  mouse-down.
\<close>

record Gesture =
  dragging :: bool
  resizing :: "ResizeHandle option"
  dragStart :: "real \<times> real"
  initialArea :: "CropArea option"

definition handleMouseDown ::
  "bool \<Rightarrow> CropArea option \<Rightarrow> real \<times> real \<Rightarrow> ResizeHandle option \<Rightarrow> Gesture \<Rightarrow> Gesture" where
  "handleMouseDown enabled cropArea client handle g =
     (if \<not> enabled \<or> cropArea = None then g
      else (let g1 = g \<lparr> dragStart := client, initialArea := cropArea \<rparr>
            in case handle of
                 Some h \<Rightarrow> g1 \<lparr> resizing := Some h \<rparr>
               | None \<Rightarrow> g1 \<lparr> dragging := True \<rparr>))"

text \<open>The edges each handle owns, applied to the rectangle of the mouse-down.\<close>

fun resizeArea :: "ResizeHandle \<Rightarrow> CropArea \<Rightarrow> real \<Rightarrow> real \<Rightarrow> CropArea" where
  "resizeArea H_nw a dx dy =
     a \<lparr> area_x := area_x a + dx, area_y := area_y a + dy,
         area_width := area_width a - dx, area_height := area_height a - dy \<rparr>"
| "resizeArea H_n a dx dy =
     a \<lparr> area_y := area_y a + dy, area_height := area_height a - dy \<rparr>"
| "resizeArea H_ne a dx dy =
     a \<lparr> area_y := area_y a + dy, area_width := area_width a + dx,
         area_height := area_height a - dy \<rparr>"
| "resizeArea H_e a dx dy = a \<lparr> area_width := area_width a + dx \<rparr>"
| "resizeArea H_se a dx dy =
     a \<lparr> area_width := area_width a + dx, area_height := area_height a + dy \<rparr>"
| "resizeArea H_s a dx dy = a \<lparr> area_height := area_height a + dy \<rparr>"
| "resizeArea H_sw a dx dy =
     a \<lparr> area_x := area_x a + dx, area_width := area_width a - dx,
         area_height := area_height a + dy \<rparr>"
| "resizeArea H_w a dx dy =
     a \<lparr> area_x := area_x a + dx, area_width := area_width a - dx \<rparr>"

text \<open>
  \<open>handleMouseMove\<close> returns the rectangle handed to \<open>onChange\<close>, or
  \<open>None\<close> where the handler returns without calling it. The pointer delta is divided by
  the scale, taken here as a finite real other than 0, as the mapper yields it for
  positive dimensions (for a scale of 0 the quotient of the source is infinite or NaN,
  which the real quotient here does not show).
\<close>

definition handleMouseMove ::
  "real \<Rightarrow> real \<Rightarrow> real \<Rightarrow> Gesture \<Rightarrow> real \<times> real \<Rightarrow> CropArea option" where
  "handleMouseMove videoWidth videoHeight sc g client =
     (case initialArea g of
        None \<Rightarrow> None
      | Some a \<Rightarrow>
          (let dx = (fst client - fst (dragStart g)) / sc;
               dy = (snd client - snd (dragStart g)) / sc
           in if dragging g
              then Some (clampArea videoWidth videoHeight
                           (a \<lparr> area_x := area_x a + dx, area_y := area_y a + dy \<rparr>))
              else (case resizing g of
                      Some h \<Rightarrow> Some (clampArea videoWidth videoHeight (resizeArea h a dx dy))
                    | None \<Rightarrow> None)))"

definition handleMouseUp :: "Gesture \<Rightarrow> Gesture" where
  "handleMouseUp g = g \<lparr> dragging := False, resizing := None, initialArea := None \<rparr>"

text \<open>
  A click on the overlay creates the default rectangle when none exists and the click
  falls on the displayed video.
\<close>

definition handleOverlayClick ::
  "bool \<Rightarrow> CropArea option \<Rightarrow> real \<Rightarrow> real \<Rightarrow> real \<Rightarrow> real \<Rightarrow> real \<Rightarrow> real \<Rightarrow>
     real \<times> real \<Rightarrow> CropArea option" where
  "handleOverlayClick enabled cropArea videoWidth videoHeight ox oy dw dh click =
     (if \<not> enabled \<or> cropArea \<noteq> None then None
      else (let clickX = fst click; clickY = snd click
            in if clickX < ox \<or> clickX > ox + dw \<or> clickY < oy \<or> clickY > oy + dh
               then None
               else (let defaultWidth = videoWidth / 2;
                         defaultHeight = videoHeight / 2;
                         defaultX = (videoWidth - defaultWidth) / 2;
                         defaultY = (videoHeight - defaultHeight) / 2
                     in Some \<lparr> area_x = Math_round defaultX, area_y = Math_round defaultY,
                               area_width = Math_round defaultWidth,
                               area_height = Math_round defaultHeight \<rparr>)))"

section \<open>Editor: the session state\<close>

text \<open>
  The \<open>useState\<close> cells of the \<open>Editor\<close> page. \<open>None\<close> is the source's
  \<open>null\<close>.
\<close>

record EditorState =
  allVideos :: "VideoFile list"
  mainVideo :: "VideoFile option"
  previewVideo :: "VideoFile option"
  selectedMaterial :: "VideoFile option"
  mode :: EditorMode
  duration :: real
  startTime :: real
  endTime :: real
  currentTime :: real
  cropArea :: "CropArea option"
  overlayPosition :: "OverlayPosition option"
  videoDisplaySize :: "real \<times> real"

section \<open>PropertyPanel: numeric field edits\<close>

text \<open>
  The value an \<open>InputNumber\<close> hands over is \<open>number | string | undefined\<close>.
  \<open>parseInt10\<close> is \<open>parseInt(s, 10)\<close> on ASCII input: leading white space is
  skipped, one sign is read, then the longest run of decimal digits; \<open>None\<close> is NaN.
\<close>

datatype InputValue = NumberV real | StringV string | UndefinedV

datatype Field = F_x | F_y | F_width | F_height

definition isStrWhiteSpaceChar :: "char \<Rightarrow> bool" where
  "isStrWhiteSpaceChar c = (c \<in> set [CHR 0x09, CHR 0x0A, CHR 0x0B, CHR 0x0C, CHR 0x0D, CHR 0x20])"

definition isDigit :: "char \<Rightarrow> bool" where
  "isDigit c = (48 \<le> (of_char c :: nat) \<and> (of_char c :: nat) \<le> 57)"

definition parseInt10 :: "string \<Rightarrow> real option" where
  "parseInt10 str =
     (let s = dropWhile isStrWhiteSpaceChar str;
          negative = (case s of [] \<Rightarrow> False | c # _ \<Rightarrow> c = CHR ''-'');
          s1 = (case s of [] \<Rightarrow> [] | c # cs \<Rightarrow> if c = CHR ''+'' \<or> c = CHR ''-'' then cs else s);
          z = takeWhile isDigit s1
      in if z = [] then None
         else Some ((if negative then - 1 else 1) *
                    real (foldl (\<lambda>n c. 10 * n + (of_char c - 48)) 0 z)))"

text \<open>
  \<open>typeof value === 'number' ? value : parseInt(String(value), 10)\<close>;
  \<open>String(undefined)\<close> is the text \<open>undefined\<close>, which does not parse.
\<close>

definition parseValue :: "InputValue \<Rightarrow> real option" where
  "parseValue v =
     (case v of
        NumberV n \<Rightarrow> Some n
      | StringV s \<Rightarrow> parseInt10 s
      | UndefinedV \<Rightarrow> parseInt10 ''undefined'')"

text \<open>
  \<open>handleCropChange\<close>: one field of the crop rectangle is replaced, clamped against
  the main video and the other fields. The result is the rectangle handed to
  \<open>onCropAreaChange\<close>; \<open>None\<close> where the handler returns early.
\<close>

definition setCropField :: "(real \<Rightarrow> real) \<Rightarrow> Field \<Rightarrow> real \<Rightarrow> VideoFile \<Rightarrow> CropArea \<Rightarrow> CropArea" where
  "setCropField rnd field numValue mv a =
     (case field of
        F_x \<Rightarrow> a \<lparr> area_x := rnd (max 0 (min numValue (v_width mv - area_width a))) \<rparr>
      | F_y \<Rightarrow> a \<lparr> area_y := rnd (max 0 (min numValue (v_height mv - area_height a))) \<rparr>
      | F_width \<Rightarrow> a \<lparr> area_width := rnd (max 20 (min numValue (v_width mv - area_x a))) \<rparr>
      | F_height \<Rightarrow> a \<lparr> area_height := rnd (max 20 (min numValue (v_height mv - area_y a))) \<rparr>)"

definition handleCropChange ::
  "CropArea option \<Rightarrow> VideoFile option \<Rightarrow> Field \<Rightarrow> InputValue \<Rightarrow> CropArea option" where
  "handleCropChange ca mvo field v =
     (case (ca, mvo) of
        (Some a, Some mv) \<Rightarrow>
          (case (case v of NumberV n \<Rightarrow> Some (Math_round n) | _ \<Rightarrow> parseValue v) of
             None \<Rightarrow> None
           | Some numValue \<Rightarrow> Some (setCropField Math_round field numValue mv a))
      | _ \<Rightarrow> None)"

text \<open>
  \<open>handleCropInputBlur\<close> commits the text typed into one field. It returns the
  rectangle handed to \<open>onCropAreaChange\<close> (if any) and the remaining draft inputs.
\<close>

definition handleCropInputBlur ::
  "CropArea option \<Rightarrow> VideoFile option \<Rightarrow> (Field \<rightharpoonup> string) \<Rightarrow> Field \<Rightarrow>
     CropArea option \<times> (Field \<rightharpoonup> string)" where
  "handleCropInputBlur ca mvo cropInputs field =
     (case (ca, mvo) of
        (Some a, Some mv) \<Rightarrow>
          (case cropInputs field of
             None \<Rightarrow> (None, cropInputs(field := None))
           | Some inputValue \<Rightarrow>
               if inputValue = [] then (None, cropInputs(field := None))
               else (case parseInt10 inputValue of
                       None \<Rightarrow> (None, cropInputs(field := None))
                     | Some n \<Rightarrow>
                         (Some (setCropField (\<lambda>r. r) field (Math_round n) mv a),
                          cropInputs(field := None))))
      | _ \<Rightarrow> (None, cropInputs))"

text \<open>
  \<open>handleOverlayChange\<close>: the edited field of the overlay placement becomes
  \<open>Math.max(0, numValue)\<close>; nothing else is compared.
\<close>

definition setField :: "Field \<Rightarrow> real \<Rightarrow> CropArea \<Rightarrow> CropArea" where
  "setField field r a =
     (case field of
        F_x \<Rightarrow> a \<lparr> area_x := r \<rparr>
      | F_y \<Rightarrow> a \<lparr> area_y := r \<rparr>
      | F_width \<Rightarrow> a \<lparr> area_width := r \<rparr>
      | F_height \<Rightarrow> a \<lparr> area_height := r \<rparr>)"

definition handleOverlayChange ::
  "OverlayPosition option \<Rightarrow> VideoFile option \<Rightarrow> Field \<Rightarrow> InputValue \<Rightarrow> OverlayPosition option" where
  "handleOverlayChange op mvo field v =
     (case (op, mvo) of
        (Some pos, Some mv) \<Rightarrow>
          (case parseValue v of
             None \<Rightarrow> None
           | Some numValue \<Rightarrow> Some (setField field (max 0 numValue) pos))
      | _ \<Rightarrow> None)"

definition handleResetCrop :: "VideoFile option \<Rightarrow> CropArea option" where
  "handleResetCrop mvo =
     (case mvo of
        None \<Rightarrow> None
      | Some mv \<Rightarrow> Some \<lparr> area_x = 0, area_y = 0, area_width = v_width mv, area_height = v_height mv \<rparr>)"

section \<open>services/videoApi.ts\<close>


definition API_BASE :: string where
  "API_BASE = ''http://localhost:5001/api''"

definition getVideoUrl :: "string \<Rightarrow> string" where
  "getVideoUrl fileId = API_BASE @ ''/video/file/'' @ fileId"



section \<open>PropertyPanel: submitting and polling a job\<close>














section \<open>OverlayVideo\<close>

text \<open>
  The props of the component, and the secondary \<open>video\<close> element as far as the
  component touches it. Assigning \<open>currentTime\<close> is a seek; the commands the sync
  effect issues are kept as a list, so that a seek that happens can be told from one that
  does not. \<open>isPlaying\<close> is the component's own state, set by the \<open>play\<close> and
  \<open>pause\<close> methods it exposes to the player.
\<close>

record OverlayVideoProps =
  p_video :: VideoFile
  p_position :: OverlayPosition
  p_containerWidth :: real
  p_containerHeight :: real
  p_mainVideoWidth :: real
  p_mainVideoHeight :: real
  p_mainVideoTime :: real
  p_mainVideoDuration :: real
  p_overlayStartTime :: real




definition overlayEndTime :: "OverlayVideoProps \<Rightarrow> real" where
  "overlayEndTime p = min (p_overlayStartTime p + v_duration (p_video p)) (p_mainVideoDuration p)"







text \<open>
  Dragging and resizing the overlay; each returns the placement handed to the owner.
  \<open>start\<close> is the pointer position and the placement's position (or size) at
  mouse-down. The component is mounted once the displayed width is positive, and its two
  scale factors are finite and positive for a main video of positive size.
\<close>

definition overlayDrag ::
  "OverlayVideoProps \<Rightarrow> (real \<times> real) \<times> (real \<times> real) \<Rightarrow> real \<times> real \<Rightarrow> OverlayPosition" where
  "overlayDrag p start client =
     (let scaleX = p_containerWidth p / p_mainVideoWidth p;
          scaleY = p_containerHeight p / p_mainVideoHeight p;
          deltaX = (fst client - fst (fst start)) / scaleX;
          deltaY = (snd client - snd (fst start)) / scaleY;
          newX = Math_round (fst (snd start) + deltaX);
          newY = Math_round (snd (snd start) + deltaY)
      in (p_position p)
           \<lparr> area_x := max 0 (min newX (p_mainVideoWidth p - area_width (p_position p))),
             area_y := max 0 (min newY (p_mainVideoHeight p - area_height (p_position p))) \<rparr>)"

definition overlayResize ::
  "OverlayVideoProps \<Rightarrow> (real \<times> real) \<times> (real \<times> real) \<Rightarrow> real \<times> real \<Rightarrow> OverlayPosition" where
  "overlayResize p start client =
     (let scaleX = p_containerWidth p / p_mainVideoWidth p;
          scaleY = p_containerHeight p / p_mainVideoHeight p;
          deltaX = (fst client - fst (fst start)) / scaleX;
          deltaY = (snd client - snd (fst start)) / scaleY;
          newWidth = Math_round (fst (snd start) + deltaX);
          newHeight = Math_round (snd (snd start) + deltaY)
      in (p_position p)
           \<lparr> area_width := min (max 50 newWidth) (p_mainVideoWidth p - area_x (p_position p)),
             area_height := min (max 50 newHeight) (p_mainVideoHeight p - area_y (p_position p)) \<rparr>)"

section \<open>Editor: the handlers\<close>

definition handleDurationChange :: "real \<Rightarrow> EditorState \<Rightarrow> EditorState" where
  "handleDurationChange dur st =
     st \<lparr> duration := dur,
          endTime := (if endTime st = 0 \<or> endTime st > dur then dur else endTime st) \<rparr>"


definition handleSetMainVideo :: "VideoFile \<Rightarrow> EditorState \<Rightarrow> EditorState" where
  "handleSetMainVideo video st = st \<lparr> mainVideo := Some video \<rparr>"

definition handleMaterialSelect :: "VideoFile \<Rightarrow> EditorState \<Rightarrow> EditorState" where
  "handleMaterialSelect video st =
     (if mode st = mode_merge \<and> Some (v_id video) \<noteq> map_option v_id (mainVideo st)
      then (case mainVideo st of
              None \<Rightarrow> st \<lparr> selectedMaterial := Some video \<rparr>
            | Some mv \<Rightarrow>
                st \<lparr> selectedMaterial := Some video,
                     overlayPosition :=
                       Some \<lparr> area_x = 0, area_y = 0,
                              area_width = min (v_width video) (Math_round (v_width mv / 4)),
                              area_height = min (v_height video) (Math_round (v_height mv / 4)) \<rparr> \<rparr>)
      else st)"

definition handlePreviewVideo :: "VideoFile \<Rightarrow> EditorState \<Rightarrow> EditorState" where
  "handlePreviewVideo video st = st \<lparr> previewVideo := Some video \<rparr>"


text \<open>
  \<open>handleDeleteVideo\<close> compares against the values of the current render; a later
  setter of the same cell wins.
\<close>

definition handleDeleteVideo :: "VideoFile \<Rightarrow> EditorState \<Rightarrow> EditorState" where
  "handleDeleteVideo video st =
     (let s1 = st \<lparr> allVideos := filter (\<lambda>v. v_id v \<noteq> v_id video) (allVideos st) \<rparr>;
          s2 = (if map_option v_id (mainVideo st) = Some (v_id video)
                then s1 \<lparr> mainVideo := None, previewVideo := None \<rparr> else s1);
          s3 = (if map_option v_id (previewVideo st) = Some (v_id video)
                then s2 \<lparr> previewVideo := mainVideo st \<rparr> else s2)
      in if map_option v_id (selectedMaterial st) = Some (v_id video)
         then s3 \<lparr> selectedMaterial := None, overlayPosition := None \<rparr> else s3)"

definition handleModeChange :: "EditorMode \<Rightarrow> EditorState \<Rightarrow> EditorState" where
  "handleModeChange newMode st =
     (let s1 = st \<lparr> mode := newMode \<rparr>;
          s2 = (if newMode = mode_crop
                then (let s = s1 \<lparr> selectedMaterial := None, overlayPosition := None \<rparr>
                      in case (mainVideo st, cropArea st) of
                           (Some mv, None) \<Rightarrow>
                             s \<lparr> cropArea := Some \<lparr> area_x = 0, area_y = 0,
                                                    area_width = v_width mv,
                                                    area_height = v_height mv \<rparr> \<rparr>
                         | _ \<Rightarrow> s)
                else s1)
      in case mainVideo st of
           Some mv \<Rightarrow> s2 \<lparr> previewVideo := Some mv \<rparr>
         | None \<Rightarrow> s2)"

definition handleOverlayDrop :: "VideoFile \<Rightarrow> OverlayPosition \<Rightarrow> EditorState \<Rightarrow> EditorState" where
  "handleOverlayDrop video position st =
     (if Some (v_id video) \<noteq> map_option v_id (mainVideo st)
      then st \<lparr> selectedMaterial := Some video, overlayPosition := Some position \<rparr>
      else st)"

definition handleOverlayRemove :: "EditorState \<Rightarrow> EditorState" where
  "handleOverlayRemove st = st \<lparr> selectedMaterial := None, overlayPosition := None \<rparr>"

text \<open>
  The effect with dependency \<open>mainVideo?.id\<close>: it runs after a render in which that
  value differs from the previous render, and resets the session when a main video is
  present. \<open>dispatch\<close> is one event: the handler, then the effect.
\<close>

definition mainVideoEffect :: "EditorState \<Rightarrow> EditorState \<Rightarrow> EditorState" where
  "mainVideoEffect before st =
     (if map_option v_id (mainVideo before) = map_option v_id (mainVideo st) then st
      else (case mainVideo st of
              None \<Rightarrow> st
            | Some mv \<Rightarrow>
                st \<lparr> startTime := 0, endTime := v_duration mv, cropArea := None,
                     duration := v_duration mv, overlayPosition := None,
                     selectedMaterial := None, previewVideo := Some mv \<rparr>))"

definition dispatch :: "(EditorState \<Rightarrow> EditorState) \<Rightarrow> EditorState \<Rightarrow> EditorState" where
  "dispatch handler st = mainVideoEffect st (handler st)"


text \<open>
  The page renders the crop overlay, and with it the coordinate mapper, only in crop mode,
  over the main video, and once the displayed width has been measured as positive.
\<close>

definition displayVideo :: "EditorState \<Rightarrow> VideoFile option" where
  "displayVideo st = (case previewVideo st of Some pv \<Rightarrow> Some pv | None \<Rightarrow> mainVideo st)"

definition cropOverlayDisplay :: "EditorState \<Rightarrow> Display option" where
  "cropOverlayDisplay st =
     (case (mainVideo st, displayVideo st) of
        (Some mv, Some dv) \<Rightarrow>
          if mode st = mode_crop \<and> fst (videoDisplaySize st) > 0 \<and> v_id dv = v_id mv
          then Some (computeDisplay (v_width dv) (v_height dv)
                       (fst (videoDisplaySize st)) (snd (videoDisplaySize st)))
          else None
      | _ \<Rightarrow> None)"

section \<open>MainVideoUploader and MaterialPanel: validating an upload\<close>

record File =
  file_name :: string
  file_type :: string
  file_size :: nat

definition ALLOWED_TYPES :: "string list" where
  "ALLOWED_TYPES =
     [''video/mp4'', ''video/quicktime'', ''video/x-msvideo'', ''video/webm'', ''video/x-matroska'']"

definition MAX_SIZE :: nat where
  "MAX_SIZE = 500 * 1024 * 1024"

text \<open>
  The regular expression \<open>/\.(mp4|mov|avi|webm|mkv|flv|wmv)$/i\<close>: the name ends with a
  dot and one of seven extensions, letters compared without case.
\<close>

definition toLowerAscii :: "char \<Rightarrow> char" where
  "toLowerAscii c =
     (case map_of (zip ''ABCDEFGHIJKLMNOPQRSTUVWXYZ'' ''abcdefghijklmnopqrstuvwxyz'') c of
        Some l \<Rightarrow> l
      | None \<Rightarrow> c)"

definition endsWith :: "string \<Rightarrow> string \<Rightarrow> bool" where
  "endsWith str suf =
     (length suf \<le> length str \<and> drop (length str - length suf) str = suf)"

definition EXTENSIONS :: "string list" where
  "EXTENSIONS = [''mp4'', ''mov'', ''avi'', ''webm'', ''mkv'', ''flv'', ''wmv'']"

definition matchesExtension :: "string \<Rightarrow> bool" where
  "matchesExtension name =
     list_ex (\<lambda>ext. endsWith (map toLowerAscii name) (CHR ''.'' # ext)) EXTENSIONS"

datatype UploadError = UnsupportedFormat | FileTooLarge

definition validateFile :: "File \<Rightarrow> UploadError option" where
  "validateFile file =
     (if file_type file \<notin> set ALLOWED_TYPES \<and> \<not> matchesExtension (file_name file)
      then Some UnsupportedFormat
      else if file_size file > MAX_SIZE then Some FileTooLarge
      else None)"

text \<open>
  What each upload handler does before it waits for the network: an error message and
  nothing else, or the progress state and the request.
\<close>

datatype UploadEffect =
    MessageError UploadError
  | SetUploading bool
  | SetProgress nat nat nat
  | UploadVideo File

definition handleUpload :: "File \<Rightarrow> UploadEffect list" where
  "handleUpload file =
     (case validateFile file of
        Some err \<Rightarrow> [MessageError err]
      | None \<Rightarrow> [SetUploading True, SetProgress 0 (file_size file) 0, UploadVideo file])"

definition handleFileChange :: "File option \<Rightarrow> UploadEffect list" where
  "handleFileChange fo =
     (case fo of
        None \<Rightarrow> []
      | Some file \<Rightarrow>
          if file_type file \<notin> set ALLOWED_TYPES \<and> \<not> matchesExtension (file_name file)
          then [MessageError UnsupportedFormat]
          else if file_size file > MAX_SIZE then [MessageError FileTooLarge]
          else [SetUploading True, SetProgress 0 (file_size file) 0, UploadVideo file])"

section \<open>The rectangle invariant\<close>

text \<open>
  The property the clamping is meant to keep: a rectangle of at least the minimum size
  that lies inside the frame.
\<close>

definition rectInvariant :: "real \<Rightarrow> real \<Rightarrow> real \<Rightarrow> CropArea \<Rightarrow> bool" where
  "rectInvariant minSize boundsWidth boundsHeight r =
     (area_width r \<ge> minSize \<and> area_height r \<ge> minSize \<and>
      area_x r \<ge> 0 \<and> area_y r \<ge> 0 \<and>
      area_x r + area_width r \<le> boundsWidth \<and>
      area_y r + area_height r \<le> boundsHeight)"

section \<open>Example data\<close>

text \<open>
  Concrete values at which the theorems below are instantiated: a 1920 x 1080 main
  video of 120 seconds at 30 frames per second, a 640 x 360 clip of 15 seconds, and an
  editor session in crop mode holding both, with the main video displayed at 800 x 450.
\<close>

definition example_main :: VideoFile where
  "example_main =
     \<lparr> v_id = ''main'', v_name = ''main.mp4'', v_size = 1000000, v_duration = 120,
       v_width = 1920, v_height = 1080, v_fps = 30, v_frameCount = 3600,
       v_format = ''mp4'', v_url = getVideoUrl ''main'', v_isMain = Some True,
       v_sourceType = Some src_upload, v_parentId = None \<rparr>"

definition example_clip :: VideoFile where
  "example_clip =
     \<lparr> v_id = ''clip'', v_name = ''clip.mp4'', v_size = 200000, v_duration = 15,
       v_width = 640, v_height = 360, v_fps = 30, v_frameCount = 450,
       v_format = ''mp4'', v_url = getVideoUrl ''clip'', v_isMain = Some False,
       v_sourceType = Some src_upload, v_parentId = None \<rparr>"

definition example_session :: EditorState where
  "example_session =
     \<lparr> allVideos = [example_clip, example_main], mainVideo = Some example_main,
       previewVideo = Some example_main, selectedMaterial = None,
       mode = mode_crop, duration = 120, startTime = 0, endTime = 120, currentTime = 0,
       cropArea = None, overlayPosition = None, videoDisplaySize = (800, 450) \<rparr>"




section \<open>The coordinate mapper: properties\<close>

lemma js_div_by_zero_not_finite: "\<not> is_finite (js_div a (Fin 0))"
  by (cases a) simp_all

lemma computeDisplay_positive:
  assumes "0 < videoWidth" "0 < videoHeight" "0 < containerWidth" "0 < containerHeight"
  shows "computeDisplay videoWidth videoHeight containerWidth containerHeight =
     (if containerWidth / containerHeight < videoWidth / videoHeight
      then \<lparr> videoAspect = Fin (videoWidth / videoHeight),
             containerAspect = Fin (containerWidth / containerHeight),
             displayWidth = Fin containerWidth,
             displayHeight = Fin (containerWidth / (videoWidth / videoHeight)),
             offsetX = Fin 0,
             offsetY = Fin ((containerHeight - containerWidth / (videoWidth / videoHeight)) / 2),
             scale = Fin (containerWidth / videoWidth) \<rparr>
      else \<lparr> videoAspect = Fin (videoWidth / videoHeight),
             containerAspect = Fin (containerWidth / containerHeight),
             displayWidth = Fin (containerHeight * (videoWidth / videoHeight)),
             displayHeight = Fin containerHeight,
             offsetX = Fin ((containerWidth - containerHeight * (videoWidth / videoHeight)) / 2),
             offsetY = Fin 0,
             scale = Fin (containerHeight * (videoWidth / videoHeight) / videoWidth) \<rparr>)"
  using assms by (simp add: computeDisplay_def Let_def)

lemma display_values:
  assumes "0 < videoWidth" "0 < videoHeight" "0 < containerWidth" "0 < containerHeight"
  shows "scale (computeDisplay videoWidth videoHeight containerWidth containerHeight) =
           Fin (if containerWidth / containerHeight < videoWidth / videoHeight
                then containerWidth / videoWidth
                else containerHeight * (videoWidth / videoHeight) / videoWidth)"
    and "offsetX (computeDisplay videoWidth videoHeight containerWidth containerHeight) =
           Fin (if containerWidth / containerHeight < videoWidth / videoHeight
                then 0
                else (containerWidth - containerHeight * (videoWidth / videoHeight)) / 2)"
    and "offsetY (computeDisplay videoWidth videoHeight containerWidth containerHeight) =
           Fin (if containerWidth / containerHeight < videoWidth / videoHeight
                then (containerHeight - containerWidth / (videoWidth / videoHeight)) / 2
                else 0)"
  by (simp_all add: computeDisplay_positive [OF assms])

lemma Math_round_of_int: "Math_round (of_int k) = of_int k"
  by (simp add: Math_round_def)

lemma Math_round_Ints: "v \<in> \<int> \<Longrightarrow> Math_round v = v"
  by (auto elim!: Ints_cases simp: Math_round_of_int)

lemma Math_round_in_Ints: "Math_round v \<in> \<int>"
  by (simp add: Math_round_def)

lemma toVideo_toContainer:
  assumes "sc \<noteq> 0"
    and "area_x R \<in> \<int>" "area_y R \<in> \<int>" "area_width R \<in> \<int>" "area_height R \<in> \<int>"
  shows "toVideoCoords sc ox oy (toContainerCoords sc ox oy R) = R"
  using assms by (simp add: toVideoCoords_def toContainerCoords_def Math_round_Ints)

text \<open>
  C5. For positive native and container dimensions the mapper yields a finite scale and
  finite offsets, and with them a native rectangle with integer fields mapped to the
  container and back differs from the original by at most 1 on each of \<open>x\<close>,
  \<open>y\<close>, \<open>width\<close> and \<open>height\<close>. (On exact reals the round trip returns the
  rectangle itself, see \<open>toVideo_toContainer\<close>; the rectangle need not lie inside the
  frame.)
\<close>

theorem C5_inverse_mapping:
  assumes "0 < videoWidth" "0 < videoHeight" "0 < containerWidth" "0 < containerHeight"
    and "area_x R \<in> \<int>" "area_y R \<in> \<int>" "area_width R \<in> \<int>" "area_height R \<in> \<int>"
  shows "\<exists>sc ox oy.
           scale (computeDisplay videoWidth videoHeight containerWidth containerHeight) = Fin sc \<and>
           offsetX (computeDisplay videoWidth videoHeight containerWidth containerHeight) = Fin ox \<and>
           offsetY (computeDisplay videoWidth videoHeight containerWidth containerHeight) = Fin oy \<and>
           \<bar>area_x (toVideoCoords sc ox oy (toContainerCoords sc ox oy R)) - area_x R\<bar> \<le> 1 \<and>
           \<bar>area_y (toVideoCoords sc ox oy (toContainerCoords sc ox oy R)) - area_y R\<bar> \<le> 1 \<and>
           \<bar>area_width (toVideoCoords sc ox oy (toContainerCoords sc ox oy R)) - area_width R\<bar> \<le> 1 \<and>
           \<bar>area_height (toVideoCoords sc ox oy (toContainerCoords sc ox oy R)) - area_height R\<bar> \<le> 1"
proof -
  let ?c = "containerWidth / containerHeight < videoWidth / videoHeight"
  let ?sc = "if ?c then containerWidth / videoWidth
             else containerHeight * (videoWidth / videoHeight) / videoWidth"
  let ?ox = "if ?c then 0 else (containerWidth - containerHeight * (videoWidth / videoHeight)) / 2"
  let ?oy = "if ?c then (containerHeight - containerWidth / (videoWidth / videoHeight)) / 2 else 0"
  have pos: "?sc \<noteq> 0"
    using assms(1-4) by simp
  have rt: "toVideoCoords ?sc ?ox ?oy (toContainerCoords ?sc ?ox ?oy R) = R"
    using pos assms(5-8) by (rule toVideo_toContainer)
  have "scale (computeDisplay videoWidth videoHeight containerWidth containerHeight) = Fin ?sc \<and>
        offsetX (computeDisplay videoWidth videoHeight containerWidth containerHeight) = Fin ?ox \<and>
        offsetY (computeDisplay videoWidth videoHeight containerWidth containerHeight) = Fin ?oy \<and>
        \<bar>area_x (toVideoCoords ?sc ?ox ?oy (toContainerCoords ?sc ?ox ?oy R)) - area_x R\<bar> \<le> 1 \<and>
        \<bar>area_y (toVideoCoords ?sc ?ox ?oy (toContainerCoords ?sc ?ox ?oy R)) - area_y R\<bar> \<le> 1 \<and>
        \<bar>area_width (toVideoCoords ?sc ?ox ?oy (toContainerCoords ?sc ?ox ?oy R)) - area_width R\<bar> \<le> 1 \<and>
        \<bar>area_height (toVideoCoords ?sc ?ox ?oy (toContainerCoords ?sc ?ox ?oy R)) - area_height R\<bar> \<le> 1"
    unfolding rt using display_values [OF assms(1-4)] by simp
  then show ?thesis by blast
qed

text \<open>The 1920 x 1080 frame in an 800 x 400 container, and a 640 x 360 rectangle at (100, 50).\<close>

theorem C5_inverse_mapping_witness:
  "(0::real) < 1920 \<and> (0::real) < 1080 \<and> (0::real) < 800 \<and> (0::real) < 400 \<and>
   (100::real) \<in> \<int> \<and> (50::real) \<in> \<int> \<and> (640::real) \<in> \<int> \<and> (360::real) \<in> \<int> \<and>
   (\<exists>sc ox oy.
      scale (computeDisplay 1920 1080 800 400) = Fin sc \<and>
      offsetX (computeDisplay 1920 1080 800 400) = Fin ox \<and>
      offsetY (computeDisplay 1920 1080 800 400) = Fin oy \<and>
      \<bar>area_x (toVideoCoords sc ox oy (toContainerCoords sc ox oy
          \<lparr> area_x = 100, area_y = 50, area_width = 640, area_height = 360 \<rparr>)) - 100\<bar> \<le> 1 \<and>
      \<bar>area_y (toVideoCoords sc ox oy (toContainerCoords sc ox oy
          \<lparr> area_x = 100, area_y = 50, area_width = 640, area_height = 360 \<rparr>)) - 50\<bar> \<le> 1 \<and>
      \<bar>area_width (toVideoCoords sc ox oy (toContainerCoords sc ox oy
          \<lparr> area_x = 100, area_y = 50, area_width = 640, area_height = 360 \<rparr>)) - 640\<bar> \<le> 1 \<and>
      \<bar>area_height (toVideoCoords sc ox oy (toContainerCoords sc ox oy
          \<lparr> area_x = 100, area_y = 50, area_width = 640, area_height = 360 \<rparr>)) - 360\<bar> \<le> 1)"
  using C5_inverse_mapping [of 1920 1080 800 400
      "\<lparr> area_x = 100, area_y = 50, area_width = 640, area_height = 360 \<rparr>"]
  by simp

text \<open>
  C9. The claim is that a container of width or height 0 gives the identity mapping
  (scale 1, offsets 0) without dividing by zero. The mapper has no such case. As amended:
  with a container of width 0 and positive height, and a frame of positive size, every
  quotient the mapper evaluates is finite (nothing is divided by zero), the scale is 0,
  \<open>offsetX\<close> is 0 and \<open>offsetY\<close> is half the container height; and the editor
  does not render the crop overlay, and so does not run the mapper, while the measured
  width is 0.
\<close>

theorem C9_zero_width:
  assumes "0 < videoWidth" "0 < videoHeight" "0 < containerHeight"
  shows "computeDisplay videoWidth videoHeight 0 containerHeight =
           \<lparr> videoAspect = Fin (videoWidth / videoHeight), containerAspect = Fin 0,
             displayWidth = Fin 0, displayHeight = Fin 0,
             offsetX = Fin 0, offsetY = Fin (containerHeight / 2), scale = Fin 0 \<rparr> \<and>
         cropOverlayDisplay (st \<lparr> videoDisplaySize := (0, containerHeight) \<rparr>) = None"
  using assms
  by (simp add: computeDisplay_def Let_def cropOverlayDisplay_def split: option.splits)

text \<open>The example session, with the displayed size measured as 0 x 400.\<close>

theorem C9_zero_width_witness:
  "(0::real) < 1920 \<and> (0::real) < 1080 \<and> (0::real) < 400 \<and>
   computeDisplay 1920 1080 0 400 =
     \<lparr> videoAspect = Fin (1920 / 1080), containerAspect = Fin 0,
       displayWidth = Fin 0, displayHeight = Fin 0,
       offsetX = Fin 0, offsetY = Fin (400 / 2), scale = Fin 0 \<rparr> \<and>
   cropOverlayDisplay (example_session \<lparr> videoDisplaySize := (0, 400) \<rparr>) = None"
  using C9_zero_width [of 1920 1080 400 example_session]
  by simp

text \<open>
  Against the claim as stated: with a container of 0 x 400 the scale is 0 and
  \<open>offsetY\<close> is 200; with a container of 800 x 0 the container aspect is the
  quotient 800 / 0, which is infinite, the scale is again 0 and \<open>offsetX\<close> is 400.
\<close>

theorem C9_identity_counterexample:
  "\<not> (scale (computeDisplay 1920 1080 0 400) = Fin 1 \<and>
      offsetX (computeDisplay 1920 1080 0 400) = Fin 0 \<and>
      offsetY (computeDisplay 1920 1080 0 400) = Fin 0) \<and>
   scale (computeDisplay 1920 1080 0 400) = Fin 0 \<and>
   offsetY (computeDisplay 1920 1080 0 400) = Fin 200 \<and>
   containerAspect (computeDisplay 1920 1080 800 0) = js_div (Fin 800) (Fin 0) \<and>
   containerAspect (computeDisplay 1920 1080 800 0) = PInf \<and>
   scale (computeDisplay 1920 1080 800 0) = Fin 0 \<and>
   offsetX (computeDisplay 1920 1080 800 0) = Fin 400"
  by (simp add: computeDisplay_def Let_def)

section \<open>Clamping: properties\<close>

text \<open>
  In a frame of at least 20 x 20, \<open>clampArea\<close> yields a rectangle of at least the
  minimum size inside the frame, whatever it is given; so does every move or resize of
  the crop box.
\<close>

lemma clampArea_invariant:
  assumes "20 \<le> videoWidth" "20 \<le> videoHeight"
  shows "rectInvariant 20 videoWidth videoHeight (clampArea videoWidth videoHeight area)"
proof -
  have one: "max 0 (min x0 (bound - max 20 (min size0 bound))) + max 20 (min size0 bound) \<le> bound"
    if "20 \<le> bound" for x0 size0 bound :: real
    using that by (simp add: max_def min_def)
  show ?thesis
    using assms by (simp add: rectInvariant_def clampArea_def Let_def one)
qed

lemma handleMouseMove_invariant:
  assumes "20 \<le> videoWidth" "20 \<le> videoHeight"
    and "handleMouseMove videoWidth videoHeight sc g client = Some r"
  shows "rectInvariant 20 videoWidth videoHeight r"
  using assms
  by (auto simp: handleMouseMove_def Let_def clampArea_invariant split: option.splits if_splits)

text \<open>
  What \<open>clampArea\<close> does when the \<open>se\<close> handle asks for more width than is
  left to the right of \<open>x\<close>: the width is limited to the frame, not to what is
  left, and \<open>x\<close> is moved left by the difference.
\<close>

lemma se_resize_past_right_edge:
  assumes "0 < area_x a" and "20 \<le> videoWidth - area_x a" and "area_x a \<in> \<int>"
    and "Math_round (area_width a + dx) > videoWidth - area_x a"
  shows "area_width (clampArea videoWidth videoHeight (resizeArea H_se a dx dy)) =
           min (Math_round (area_width a + dx)) videoWidth"
    and "area_x (clampArea videoWidth videoHeight (resizeArea H_se a dx dy)) =
           videoWidth - min (Math_round (area_width a + dx)) videoWidth"
    and "area_x (clampArea videoWidth videoHeight (resizeArea H_se a dx dy)) < area_x a"
    and "area_width (clampArea videoWidth videoHeight (resizeArea H_se a dx dy)) >
           videoWidth - area_x a"
  using assms by (auto simp: clampArea_def Let_def Math_round_Ints max_def min_def)

text \<open>
  C1. The claim: when the \<open>se\<close> handle asks for a width beyond
  \<open>boundsWidth - x\<close>, the width becomes \<open>boundsWidth - x\<close> and \<open>x\<close> stays.
  \<open>clampArea\<close> limits the width to the whole frame and then moves \<open>x\<close> left
  until the rectangle fits. In a 1920 x 1080 frame shown at scale 1, the rectangle
  \<open>{x = 100, y = 0, width = 500, height = 500}\<close> whose \<open>se\<close> corner is dragged
  1400 pixels to the right (requested width 1900, more than 1920 - 100 = 1820) becomes
  \<open>{x = 20, y = 0, width = 1900, height = 500}\<close>: the width is not 1820 and \<open>x\<close>
  has moved.
\<close>

theorem C1_se_resize_moves_x:
  "scale (computeDisplay 1920 1080 1920 1080) = Fin 1 \<and>
   handleMouseMove 1920 1080 1
     \<lparr> dragging = False, resizing = Some H_se, dragStart = (600, 500),
       initialArea = Some \<lparr> area_x = 100, area_y = 0, area_width = 500, area_height = 500 \<rparr> \<rparr>
     (2000, 500)
   = Some \<lparr> area_x = 20, area_y = 0, area_width = 1900, area_height = 500 \<rparr>"
  by (simp add: computeDisplay_def handleMouseMove_def clampArea_def Math_round_def Let_def)

text \<open>
  The numeric fields of the crop region and the gestures on the overlay keep the
  invariant of a rectangle that satisfies it.
\<close>

lemma setCropField_invariant:
  assumes "rectInvariant 20 (v_width mv) (v_height mv) a"
  shows "rectInvariant 20 (v_width mv) (v_height mv) (setCropField (\<lambda>r. r) field numValue mv a)"
  using assms by (cases field) (auto simp: rectInvariant_def setCropField_def)

lemma handleCropInputBlur_invariant:
  assumes "rectInvariant 20 (v_width mv) (v_height mv) a"
    and "handleCropInputBlur (Some a) (Some mv) cropInputs field = (Some r, rest)"
  shows "rectInvariant 20 (v_width mv) (v_height mv) r"
  using assms
  by (auto simp: handleCropInputBlur_def setCropField_invariant split: option.splits if_splits)

lemma overlayDrag_invariant:
  assumes "rectInvariant 20 (p_mainVideoWidth p) (p_mainVideoHeight p) (p_position p)"
  shows "rectInvariant 20 (p_mainVideoWidth p) (p_mainVideoHeight p) (overlayDrag p start client)"
  using assms by (auto simp: rectInvariant_def overlayDrag_def Let_def)

lemma overlayResize_invariant:
  assumes "rectInvariant 20 (p_mainVideoWidth p) (p_mainVideoHeight p) (p_position p)"
  shows "rectInvariant 20 (p_mainVideoWidth p) (p_mainVideoHeight p) (overlayResize p start client)"
  using assms by (auto simp: rectInvariant_def overlayResize_def Let_def)

text \<open>
  C2. The claim: every gesture and every numeric field edit, on the crop region or on
  the overlay placement, yields a rectangle that satisfies the invariant. The numeric
  fields of the overlay placement do not: \<open>handleOverlayChange\<close> only keeps the
  edited field non-negative. Selecting the 640 x 360 clip over the 1920 x 1080 main
  video seeds the placement \<open>{x = 0, y = 0, width = 480, height = 270}\<close>, which
  satisfies the invariant; typing 1920 into its X field (the field's own maximum is the
  main video's width) gives \<open>x = 1920\<close> with the width still 480, outside the frame.
\<close>

theorem C2_overlay_edit_leaves_frame:
  "handleMaterialSelect example_clip (example_session \<lparr> mode := mode_merge \<rparr>) =
     example_session \<lparr> mode := mode_merge, selectedMaterial := Some example_clip,
       overlayPosition := Some \<lparr> area_x = 0, area_y = 0, area_width = 480, area_height = 270 \<rparr> \<rparr> \<and>
   rectInvariant 20 1920 1080 \<lparr> area_x = 0, area_y = 0, area_width = 480, area_height = 270 \<rparr> \<and>
   handleOverlayChange
     (Some \<lparr> area_x = 0, area_y = 0, area_width = 480, area_height = 270 \<rparr>)
     (Some example_main) F_x (NumberV 1920)
   = Some \<lparr> area_x = 1920, area_y = 0, area_width = 480, area_height = 270 \<rparr> \<and>
   \<not> rectInvariant 20 1920 1080 \<lparr> area_x = 1920, area_y = 0, area_width = 480, area_height = 270 \<rparr>"
  by (simp add: handleMaterialSelect_def example_session_def example_clip_def example_main_def
      rectInvariant_def handleOverlayChange_def parseValue_def setField_def Math_round_def)

section \<open>The overlay's visibility and synchronisation: properties\<close>

lemma overlayEndTime_time [simp]:
  "overlayEndTime (p \<lparr> p_mainVideoTime := t \<rparr>) = overlayEndTime p"
  by (simp add: overlayEndTime_def)






section \<open>The editor session: properties\<close>



text \<open>
  C6. The claim: switching to merge mode clears the crop region. \<open>handleModeChange\<close>
  touches the crop region only when the new mode is crop. As amended: switching to
  merge mode sets the mode and leaves the crop region as it is; switching to crop mode
  clears the selected secondary and the overlay placement and, when a primary is loaded
  and no crop region exists, creates the full-frame crop region; otherwise it leaves
  the crop region as it is.
\<close>

theorem C6_mode_change:
  "cropArea (dispatch (handleModeChange mode_merge) st) = cropArea st \<and>
   mode (dispatch (handleModeChange mode_merge) st) = mode_merge \<and>
   selectedMaterial (dispatch (handleModeChange mode_crop) st) = None \<and>
   overlayPosition (dispatch (handleModeChange mode_crop) st) = None \<and>
   (mainVideo st = Some mv \<and> cropArea st = None \<longrightarrow>
      cropArea (dispatch (handleModeChange mode_crop) st) =
        Some \<lparr> area_x = 0, area_y = 0, area_width = v_width mv, area_height = v_height mv \<rparr>) \<and>
   (mainVideo st = None \<or> cropArea st \<noteq> None \<longrightarrow>
      cropArea (dispatch (handleModeChange mode_crop) st) = cropArea st)"
  by (auto simp: dispatch_def handleModeChange_def mainVideoEffect_def Let_def split: option.splits)

theorem C6_mode_change_witness:
  "mainVideo example_session = Some example_main \<and> cropArea example_session = None \<and>
   cropArea (dispatch (handleModeChange mode_crop) example_session) =
     Some \<lparr> area_x = 0, area_y = 0, area_width = 1920, area_height = 1080 \<rparr> \<and>
   cropArea (dispatch (handleModeChange mode_merge) example_session) = None"
proof -
  have h: "mainVideo example_session = Some example_main \<and> cropArea example_session = None"
    by (simp add: example_session_def)
  have w: "v_width example_main = 1920 \<and> v_height example_main = 1080"
    by (simp add: example_main_def)
  from C6_mode_change [of example_session example_main] h w show ?thesis by simp
qed

text \<open>The example session with a crop region, switched to merge mode: the region is still there.\<close>

theorem C6_merge_keeps_crop_counterexample:
  "cropArea (dispatch (handleModeChange mode_merge)
      (example_session \<lparr> cropArea := Some \<lparr> area_x = 100, area_y = 50, area_width = 640, area_height = 360 \<rparr> \<rparr>))
   = Some \<lparr> area_x = 100, area_y = 50, area_width = 640, area_height = 360 \<rparr> \<and>
   cropArea (dispatch (handleModeChange mode_merge)
      (example_session \<lparr> cropArea := Some \<lparr> area_x = 100, area_y = 50, area_width = 640, area_height = 360 \<rparr> \<rparr>))
   \<noteq> None"
  by (simp add: dispatch_def handleModeChange_def mainVideoEffect_def Let_def example_session_def)



section \<open>Jobs: properties\<close>







section \<open>Upload validation: properties\<close>

text \<open>
  What the two validators accept, exactly: the declared type is one of the five video
  types, or the name ends, letters compared without case, in a dot and one of seven
  extensions; and the size is at most 500 MiB. A rejected file produces one error
  message and nothing else, so no request; an accepted file is uploaded.
\<close>

lemma validateFile_accepts:
  "(validateFile file = None) =
     ((file_type file \<in> {''video/mp4'', ''video/quicktime'', ''video/x-msvideo'',
                           ''video/webm'', ''video/x-matroska''} \<or>
       (\<exists>ext \<in> {''mp4'', ''mov'', ''avi'', ''webm'', ''mkv'', ''flv'', ''wmv''}.
           endsWith (map toLowerAscii (file_name file)) (CHR ''.'' # ext))) \<and>
      file_size file \<le> 500 * 1024 * 1024) \<and>
   (validateFile file \<noteq> None \<longrightarrow>
      (\<exists>err. handleUpload file = [MessageError err] \<and>
             handleFileChange (Some file) = [MessageError err])) \<and>
   (validateFile file = None \<longrightarrow>
      UploadVideo file \<in> set (handleUpload file) \<and>
      UploadVideo file \<in> set (handleFileChange (Some file)))"
proof -
  have same: "handleFileChange (Some file) = handleUpload file"
    by (simp add: handleFileChange_def handleUpload_def validateFile_def)
  have acc: "(validateFile file = None) =
     ((file_type file \<in> {''video/mp4'', ''video/quicktime'', ''video/x-msvideo'',
                           ''video/webm'', ''video/x-matroska''} \<or>
       (\<exists>ext \<in> {''mp4'', ''mov'', ''avi'', ''webm'', ''mkv'', ''flv'', ''wmv''}.
           endsWith (map toLowerAscii (file_name file)) (CHR ''.'' # ext))) \<and>
      file_size file \<le> 500 * 1024 * 1024)"
  proof -
    have shape: "(validateFile file = None) =
        ((file_type file \<in> set ALLOWED_TYPES \<or> matchesExtension (file_name file)) \<and>
         \<not> file_size file > MAX_SIZE)"
      by (auto simp: validateFile_def)
    have types: "set ALLOWED_TYPES = {''video/mp4'', ''video/quicktime'', ''video/x-msvideo'',
                           ''video/webm'', ''video/x-matroska''}"
      by (simp add: ALLOWED_TYPES_def)
    have exts: "matchesExtension (file_name file) =
        (\<exists>ext \<in> {''mp4'', ''mov'', ''avi'', ''webm'', ''mkv'', ''flv'', ''wmv''}.
           endsWith (map toLowerAscii (file_name file)) (CHR ''.'' # ext))"
      unfolding matchesExtension_def EXTENSIONS_def list_ex_iff by (simp only: set_simps)
    have size: "(\<not> file_size file > MAX_SIZE) = (file_size file \<le> 500 * 1024 * 1024)"
      by (simp add: MAX_SIZE_def not_less)
    show ?thesis
      by (simp only: shape types exts size)
  qed
  have rej: "validateFile file \<noteq> None \<longrightarrow>
      (\<exists>err. handleUpload file = [MessageError err] \<and>
             handleFileChange (Some file) = [MessageError err])"
    by (auto simp: same handleUpload_def)
  have ok: "validateFile file = None \<longrightarrow>
      UploadVideo file \<in> set (handleUpload file) \<and>
      UploadVideo file \<in> set (handleFileChange (Some file))"
    by (simp add: same handleUpload_def)
  show ?thesis
    by (rule conjI [OF acc conjI [OF rej ok]])
qed

text \<open>
  A Matroska file of exactly 500 MiB named in capitals is accepted; a text file, and an
  mp4 file one byte larger, are rejected.
\<close>

lemma validateFile_examples:
  "validateFile \<lparr> file_name = ''CLIP.MKV'', file_type = '''', file_size = 524288000 \<rparr> = None"
  "validateFile \<lparr> file_name = ''notes.txt'', file_type = ''text/plain'', file_size = 10 \<rparr>
     = Some UnsupportedFormat"
  "validateFile \<lparr> file_name = ''big.mp4'', file_type = ''video/mp4'', file_size = 524288001 \<rparr>
     = Some FileTooLarge"
  by (simp_all add: validateFile_def matchesExtension_def EXTENSIONS_def endsWith_def
      toLowerAscii_def ALLOWED_TYPES_def MAX_SIZE_def)

text \<open>
  C8. The claim: a file is accepted exactly when its declared type or its extension is
  one of mp4, mov, avi, webm, mkv and it has at most 500 MiB, and a rejected file gets a
  message and no request. The message \<open>validateFile\<close> returns for an unsupported
  file, and the hint under the upload area, name these five formats; the regular
  expression of both validators lists flv and wmv as well. A Flash video file of 1024
  bytes, whose declared type and extension are not among the five, is accepted and
  uploaded by both handlers.
\<close>

theorem C8_flv_accepted:
  "validateFile \<lparr> file_name = ''clip.flv'', file_type = ''video/x-flv'', file_size = 1024 \<rparr> = None \<and>
   UploadVideo \<lparr> file_name = ''clip.flv'', file_type = ''video/x-flv'', file_size = 1024 \<rparr>
     \<in> set (handleUpload \<lparr> file_name = ''clip.flv'', file_type = ''video/x-flv'', file_size = 1024 \<rparr>) \<and>
   UploadVideo \<lparr> file_name = ''clip.flv'', file_type = ''video/x-flv'', file_size = 1024 \<rparr>
     \<in> set (handleFileChange
              (Some \<lparr> file_name = ''clip.flv'', file_type = ''video/x-flv'', file_size = 1024 \<rparr>)) \<and>
   ''video/x-flv'' \<notin> set ALLOWED_TYPES \<and>
   \<not> (\<exists>ext \<in> {''mp4'', ''mov'', ''avi'', ''webm'', ''mkv''}.
         endsWith (map toLowerAscii ''clip.flv'') (CHR ''.'' # ext))"
  by (simp add: handleUpload_def handleFileChange_def validateFile_def matchesExtension_def
      EXTENSIONS_def endsWith_def toLowerAscii_def ALLOWED_TYPES_def MAX_SIZE_def)

end
